theory Spec2Isabelle
  imports
    Complex_Main
    "HOL-Library.Multiset"
    "HOL-Library.Word"
    "HOL-Library.Char_ord"
    "HOL-Library.List_Lexorder"
begin

section \<open>Dataset builders of \<^verbatim>\<open>utils/dataset.py\<close>\<close>

text \<open>
  The module has two functions, \<^verbatim>\<open>create_criteo_dataset\<close> and
  \<^verbatim>\<open>create_explicit_ml_1m_dataset\<close>. Both read a delimited text file into a pandas
  DataFrame and transform it with pandas, numpy and scikit-learn calls. The embedding
  takes the table that \<^verbatim>\<open>pd.read_csv\<close> returns as its input and gives every other
  library call the function it computes:
  \<^item> a DataFrame is the list of its rows, each row paired with its index label, where a
    claim depends on the labels, and the list of its columns, where the code works on
    columns;
  \<^item> a missing cell (NaN) is \<open>None\<close>;
  \<^item> a float64 value is the real number it stands for. In the CTR builder every
    float64 operation is the exact operation followed by \<open>float64\<close>, the rounding to
    the nearest float64; in the rating builder the mean and the product
    \<^verbatim>\<open>0.8 * watch_count[i]\<close> are taken exactly;
  \<^item> numpy's random permutations are a parameter, a function from the length \<open>n\<close> to
    an arrangement of \<open>[0..<n]\<close>;
  \<^item> an exception is the \<open>Inl\<close> of a sum.
\<close>

subsection \<open>Shared pieces\<close>

datatype error = ValueError string | TypeError string

text \<open>
  Modelled from the spec: the constructors \<^verbatim>\<open>denseFeature\<close> and
  \<^verbatim>\<open>sparseFeature\<close> come from \<^verbatim>\<open>utils/func.py\<close> (imported with
  \<^verbatim>\<open>from .func import *\<close>), a file of the repository that is not among the
  sources. The spec gives them as two pure constructors,
  \<^verbatim>\<open>denseFeature(name) -> {feat: name}\<close> and
  \<^verbatim>\<open>sparseFeature(name, cardinality, embed_dim) -> {feat: name, feat_num: cardinality, embed_dim: embed_dim}\<close>.
  The same import provides \<^verbatim>\<open>tqdm\<close>, which iterates over its argument unchanged.
\<close>

datatype feature =
    denseFeature string
  | sparseFeature string int nat

text \<open>\<^verbatim>\<open>.astype('int32')\<close> on an integer array keeps the low 32 bits, read as signed.\<close>

definition astype_int32 :: "int \<Rightarrow> int" where
  "astype_int32 v = sint (word_of_int v :: 32 word)"

text \<open>
  A source of random permutations: \<open>g n\<close> is what \<^verbatim>\<open>rng.permutation(n)\<close> returns.
  numpy returns an arrangement of \<open>0, \<dots>, n - 1\<close>, which is \<open>permutation_source\<close>.
\<close>

type_synonym rng = "nat \<Rightarrow> nat list"

definition permutation_source :: "rng \<Rightarrow> bool" where
  "permutation_source g \<longleftrightarrow> (\<forall>n. mset (g n) = mset [0..<n])"

text \<open>
  \<^verbatim>\<open>df.sample(frac=1.).reset_index(drop=True)\<close>: the rows in the order of a random
  permutation of their positions, the old index labels discarded.
\<close>

definition sample_all :: "rng \<Rightarrow> 'a list \<Rightarrow> 'a list" where
  "sample_all g rows = map (\<lambda>i. rows ! i) (g (length rows))"

subsection \<open>The rating builder\<close>

text \<open>One line of the file, \<^verbatim>\<open>UserId::MovieId::Rating::Timestamp\<close>.\<close>

record rating =
  UserId :: int
  MovieId :: int
  Rating :: int
  Timestamp :: int

text \<open>A row after \<^verbatim>\<open>data_df['avg_score'] = ...\<close>.\<close>

record scored = rating +
  avg_score :: real

text \<open>A row after \<^verbatim>\<open>drop(['Timestamp'], axis=1)\<close>.\<close>

record sample_row =
  s_avg_score :: real
  s_UserId :: int
  s_MovieId :: int
  s_Rating :: int

text \<open>\<^verbatim>\<open>pd.read_csv\<close> gives the rows the index labels \<open>0, 1, \<dots>\<close> in file order.\<close>

definition read_csv :: "'a list \<Rightarrow> (nat \<times> 'a) list" where
  "read_csv lines = zip [0..<length lines] lines"

text \<open>\<^verbatim>\<open>data_df.groupby(by='UserId')['Rating'].transform('mean')\<close>, for the rows of user \<open>u\<close>.\<close>

definition group_mean :: "(nat \<times> rating) list \<Rightarrow> int \<Rightarrow> real" where
  "group_mean df u =
     (let rs = map (Rating \<circ> snd) (filter (\<lambda>(i, r). UserId r = u) df)
      in real_of_int (sum_list rs) / real (length rs))"

definition with_avg_score :: "(nat \<times> rating) list \<Rightarrow> (nat \<times> scored) list" where
  "with_avg_score df =
     map (\<lambda>(i, r). (i, rating.extend r (scored.fields (group_mean df (UserId r))))) df"

text \<open>Lines 88 to 90: \<^verbatim>\<open>data_df\<close> with its column \<^verbatim>\<open>avg_score\<close>.\<close>

definition rating_frame :: "rating list \<Rightarrow> (nat \<times> scored) list" where
  "rating_frame file = with_avg_score (read_csv file)"

text \<open>
  \<^verbatim>\<open>watch_count = data_df.groupby(by='UserId')['MovieId'].agg('count')\<close>: a series indexed
  by the user ids in ascending order, holding each user's number of rows.
\<close>

definition watch_count_index :: "(nat \<times> scored) list \<Rightarrow> int list" where
  "watch_count_index df = sort (remdups (map (UserId \<circ> snd) df))"

definition watch_count :: "(nat \<times> scored) list \<Rightarrow> int \<Rightarrow> nat" where
  "watch_count df u = length (filter (\<lambda>(i, r). UserId r = u) df)"

text \<open>\<^verbatim>\<open>int(0.8 * watch_count[i])\<close>.\<close>

definition split_point :: "nat \<Rightarrow> nat" where
  "split_point wc = nat \<lfloor>0.8 * real wc\<rfloor>"

text \<open>\<^verbatim>\<open>data_df[data_df.UserId == i].iloc[int(0.8 * watch_count[i]):]\<close>.\<close>

definition user_tail :: "(nat \<times> scored) list \<Rightarrow> int \<Rightarrow> (nat \<times> scored) list" where
  "user_tail df u =
     drop (split_point (watch_count df u)) (filter (\<lambda>(i, r). UserId r = u) df)"

text \<open>
  Lines 98 to 101: \<^verbatim>\<open>test_df\<close> is the concatenation of the users' tails, with the old
  index labels kept in its column \<^verbatim>\<open>'index'\<close> by \<^verbatim>\<open>reset_index()\<close>;
  \<^verbatim>\<open>train_df\<close> is \<^verbatim>\<open>data_df\<close> without the rows that carry one of these labels.
  \<^verbatim>\<open>pd.concat\<close> of no frames raises ValueError.
\<close>

definition test_split :: "(nat \<times> scored) list \<Rightarrow> (nat \<times> scored) list" where
  "test_split df = concat (map (user_tail df) (watch_count_index df))"

definition train_split :: "(nat \<times> scored) list \<Rightarrow> (nat \<times> scored) list" where
  "train_split df = filter (\<lambda>(i, r). i \<notin> set (map fst (test_split df))) df"

definition drop_Timestamp :: "nat \<times> scored \<Rightarrow> sample_row" where
  "drop_Timestamp p =
     \<lparr>s_avg_score = avg_score (snd p), s_UserId = UserId (snd p),
      s_MovieId = MovieId (snd p), s_Rating = Rating (snd p)\<rparr>"

text \<open>
  Lines 105 to 108: \<^verbatim>\<open>X = [avg_score values, [UserId, MovieId] values]\<close> and
  \<^verbatim>\<open>y = Rating\<close> as int32. A row of the two-column id array is a pair.
\<close>

type_synonym rating_xy = "(real list \<times> (int \<times> int) list) \<times> int list"

definition rating_arrays :: "sample_row list \<Rightarrow> rating_xy" where
  "rating_arrays df =
     ((map s_avg_score df, map (\<lambda>r. (s_UserId r, s_MovieId r)) df),
      map (astype_int32 \<circ> s_Rating) df)"

text \<open>
  The builder. \<open>g_train\<close> and \<open>g_test\<close> are the permutations drawn by the two
  \<^verbatim>\<open>sample(frac=1.)\<close> calls. \<open>test_size\<close> is a parameter of the source that its body
  does not read.
\<close>

definition create_explicit_ml_1m_dataset ::
  "rating list \<Rightarrow> nat \<Rightarrow> real \<Rightarrow> rng \<Rightarrow> rng \<Rightarrow>
     error + (feature list list \<times> rating_xy \<times> rating_xy)" where
  "create_explicit_ml_1m_dataset file latent_dim test_size g_train g_test =
     (let data_df = rating_frame file in
      if watch_count_index data_df = [] then Inl (ValueError ''No objects to concatenate'')
      else
        let user_num = Max (set (map (UserId \<circ> snd) data_df)) + 1;
            item_num = Max (set (map (MovieId \<circ> snd) data_df)) + 1;
            feature_columns =
              [[denseFeature ''avg_score''],
               [sparseFeature ''user_id'' user_num latent_dim,
                sparseFeature ''item_id'' item_num latent_dim]];
            train_df = sample_all g_train (map drop_Timestamp (train_split data_df));
            test_df = sample_all g_test (map drop_Timestamp (test_split data_df))
        in Inr (feature_columns, rating_arrays train_df, rating_arrays test_df))"

text \<open>The number of rows of user \<open>u\<close> in an output id array, and in the file.\<close>

definition rows_of_user :: "int \<Rightarrow> rating_xy \<Rightarrow> nat" where
  "rows_of_user u xy = length (filter (\<lambda>p. fst p = u) (snd (fst xy)))"

definition file_rows_of_user :: "int \<Rightarrow> rating list \<Rightarrow> nat" where
  "file_rows_of_user u file = length (filter (\<lambda>r. UserId r = u) file)"

text \<open>
  The samples an output holds, row by row, and the sample a row of \<^verbatim>\<open>data_df\<close> gives.
\<close>

definition xy_rows :: "rating_xy \<Rightarrow> (real \<times> (int \<times> int) \<times> int) list" where
  "xy_rows xy = zip (fst (fst xy)) (zip (snd (fst xy)) (snd xy))"

definition sample_of :: "nat \<times> scored \<Rightarrow> real \<times> (int \<times> int) \<times> int" where
  "sample_of p =
     (avg_score (snd p), (UserId (snd p), MovieId (snd p)), astype_int32 (Rating (snd p)))"

text \<open>A random source for examples: the identity arrangement.\<close>

definition identity_rng :: rng where
  "identity_rng n = [0..<n]"

text \<open>
  The property the docstring of \<^verbatim>\<open>create_explicit_ml_1m_dataset\<close> states, "the last 20% of
  each user sorted by timestamp", as a definition of its own: the rows of user \<open>u\<close>
  in ascending order of timestamp (rows of equal timestamp in file order), without the
  first \<open>int(0.8 * count)\<close> of them.
\<close>

definition time_ordered_tail :: "rating list \<Rightarrow> int \<Rightarrow> rating list" where
  "time_ordered_tail file u =
     (let rs = sort_key Timestamp (filter (\<lambda>r. UserId r = u) file)
      in drop (split_point (length rs)) rs)"

subsection \<open>float64\<close>

text \<open>
  The rounding of a real number to the nearest float64, ties to the even significand:
  a number with \<open>2 ^ e \<le> \<bar>x\<bar> < 2 ^ (e + 1)\<close> is rounded to a multiple of \<open>2 ^ (e - 52)\<close>.
  The exponent is not bounded: overflow and subnormal numbers, which need magnitudes
  above \<open>2 ^ 1023\<close> or below \<open>2 ^ - 1022\<close>, do not arise from the 64-bit integers of the
  table. Every float64 operation of the code (\<open>+\<close>, \<open>-\<close>, \<open>*\<close>, \<open>/\<close>, and the
  conversion of an integer or a literal) is the exact result rounded by \<open>float64\<close>.
\<close>

definition round_half_even :: "real \<Rightarrow> int" where
  "round_half_even x =
     (let f = \<lfloor>x\<rfloor>; d = x - of_int f
      in if d < 1 / 2 then f else if 1 / 2 < d then f + 1 else if even f then f else f + 1)"

definition float64 :: "real \<Rightarrow> real" where
  "float64 x =
     (if x = 0 then 0
      else
        let e = \<lfloor>log 2 \<bar>x\<bar>\<rfloor>;
            ulp = 2 powi (e - 52)
        in sgn x * (of_int (round_half_even (\<bar>x\<bar> / ulp)) * ulp))"

subsection \<open>The CTR builder\<close>

text \<open>
  A cell of the frame that \<^verbatim>\<open>pd.read_csv\<close> returns. \<^verbatim>\<open>read_csv\<close> is called without
  \<^verbatim>\<open>dtype\<close>, so it decides for each column what its fields are: a field that it takes
  for a missing value (an empty field, or one of its NA strings such as \<^verbatim>\<open>NA\<close> and
  \<^verbatim>\<open>null\<close>) is \<open>None\<close>, a field of a column that it parses as numbers is \<open>Num\<close>
  (a boolean is the number 0 or 1), and a field that it keeps as text is \<open>Str\<close>.
\<close>

datatype pyval = is_Str: Str (the_Str: string) | is_Num: Num (the_Num: real)

text \<open>
  One row of the frame under the schema \<^verbatim>\<open>names\<close>: the label, the cells of \<^verbatim>\<open>I1\<close> to
  \<^verbatim>\<open>I13\<close>, and the cells of \<^verbatim>\<open>C1\<close> to \<^verbatim>\<open>C26\<close>. The header of the module gives
  \<^verbatim>\<open>I1\<close> to \<^verbatim>\<open>I13\<close> as integer features and the label as 0 or 1, so their cells are
  integers here; \<^verbatim>\<open>C1\<close> to \<^verbatim>\<open>C26\<close> are categorical, and their cells are what
  \<^verbatim>\<open>read_csv\<close> makes of them. A list that ends before the schema does stands for
  missing cells at the end of the row.
\<close>

record criteo_line =
  label :: int
  dense_cells :: "int option list"
  sparse_cells :: "pyval option list"

definition cell :: "'a option list \<Rightarrow> nat \<Rightarrow> 'a option" where
  "cell xs j = (if j < length xs then xs ! j else None)"

definition dense_column :: "criteo_line list \<Rightarrow> nat \<Rightarrow> int option list" where
  "dense_column lines j = map (\<lambda>l. cell (dense_cells l) j) lines"

definition sparse_column :: "criteo_line list \<Rightarrow> nat \<Rightarrow> pyval option list" where
  "sparse_column lines j = map (\<lambda>l. cell (sparse_cells l) j) lines"

text \<open>
  The file, as \<^verbatim>\<open>pd.read_csv\<close> reads it: \<open>file None\<close> is the frame of the whole file
  and \<open>file (Some k)\<close> the frame that \<^verbatim>\<open>get_chunk(k)\<close> returns, the first \<open>k\<close> rows. The
  two are read separately, because the type of a column depends on the rows that are
  read. Lines 38 to 44 choose between them.
\<close>

type_synonym criteo_file = "nat option \<Rightarrow> criteo_line list"

definition read_lines :: "criteo_file \<Rightarrow> bool \<Rightarrow> nat \<Rightarrow> criteo_line list" where
  "read_lines file read_part sample_num =
     (if read_part then file (Some sample_num) else file None)"

text \<open>\<^verbatim>\<open>str(i)\<close> for a natural number, and the column names of lines 46 and 47.\<close>

fun str :: "nat \<Rightarrow> string" where
  "str n =
     (if n < 10 then [char_of (48 + n)] else str (n div 10) @ [char_of (48 + n mod 10)])"

declare str.simps [simp del]

definition sparse_features :: "string list" where
  "sparse_features = map (\<lambda>i. ''C'' @ str i) [1..<27]"

definition dense_features :: "string list" where
  "dense_features = map (\<lambda>i. ''I'' @ str i) [1..<14]"

text \<open>\<^verbatim>\<open>fillna(v)\<close> on one column, and lines 49 and 50 on one column.\<close>

definition fillna :: "'a \<Rightarrow> 'a option list \<Rightarrow> 'a list" where
  "fillna v col = map (\<lambda>c. case c of None \<Rightarrow> v | Some x \<Rightarrow> x) col"

definition imputed_sparse :: "criteo_line list \<Rightarrow> nat \<Rightarrow> pyval list" where
  "imputed_sparse lines j = fillna (Str ''-1'') (sparse_column lines j)"

definition imputed_dense :: "criteo_line list \<Rightarrow> nat \<Rightarrow> int list" where
  "imputed_dense lines j = fillna 0 (dense_column lines j)"

text \<open>
  \<^verbatim>\<open>LabelEncoder().fit_transform(col)\<close> on values of one kind: \<^verbatim>\<open>classes_\<close> is the
  column's distinct values in ascending order, and every value is replaced by its
  position in \<^verbatim>\<open>classes_\<close>. Python compares strings by code point, from the left, which
  is the order of \<open>string\<close> here.
\<close>

definition classes :: "'a::linorder list \<Rightarrow> 'a list" where
  "classes col = sort (remdups col)"

fun index_of :: "'a list \<Rightarrow> 'a \<Rightarrow> nat" where
  "index_of [] v = 0"
| "index_of (c # cs) v = (if c = v then 0 else Suc (index_of cs v))"

definition fit_transform :: "'a::linorder list \<Rightarrow> nat list" where
  "fit_transform col = map (index_of (classes col)) col"

text \<open>
  \<^verbatim>\<open>LabelEncoder().fit_transform\<close> on a column of the frame. A column of strings is
  ordered as strings and a column of numbers as numbers. A column that holds both cannot
  be sorted, and the encoder raises TypeError; that is what a numeric column with a
  missing cell has become after \<^verbatim>\<open>fillna('-1')\<close>.
\<close>

definition label_encode :: "pyval list \<Rightarrow> error + nat list" where
  "label_encode col =
     (if list_all is_Str col then Inr (fit_transform (map the_Str col))
      else if list_all is_Num col then Inr (fit_transform (map the_Num col))
      else Inl (TypeError ''Encoders require their input argument must be uniformly strings or numbers''))"

text \<open>The order in which the encoder sorts: strings among strings, numbers among numbers.\<close>

fun pyval_less :: "pyval \<Rightarrow> pyval \<Rightarrow> bool" where
  "pyval_less (Str a) (Str b) \<longleftrightarrow> a < b"
| "pyval_less (Num a) (Num b) \<longleftrightarrow> a < b"
| "pyval_less _ _ \<longleftrightarrow> False"

text \<open>The loop of lines 52 to 54 stops at the first column whose encoder raises.\<close>

fun collect :: "(error + 'a) list \<Rightarrow> error + 'a list" where
  "collect [] = Inr []"
| "collect (r # rs) =
     (case r of
        Inl e \<Rightarrow> Inl e
      | Inr x \<Rightarrow> (case collect rs of Inl e \<Rightarrow> Inl e | Inr xs \<Rightarrow> Inr (x # xs)))"

text \<open>
  \<^verbatim>\<open>MinMaxScaler(feature_range=(0, 1))\<close> fitted on one column \<open>X\<close> of float64 values:
  \<^verbatim>\<open>data_range = data_max - data_min\<close>, \<^verbatim>\<open>scale_ = (1 - 0) / data_range\<close> with a range
  below \<^verbatim>\<open>10 * eps\<close> replaced by 1, and \<^verbatim>\<open>min_ = 0 - data_min * scale_\<close>. The transform
  is \<^verbatim>\<open>X *= scale_; X += min_\<close>.
\<close>

definition scale_of :: "real list \<Rightarrow> real" where
  "scale_of X =
     (let data_range = float64 (Max (set X) - Min (set X));
          eps = 1 / 2 ^ 52
      in float64 ((1 - 0) / (if data_range < 10 * eps then 1 else data_range)))"

definition min_of :: "real list \<Rightarrow> real" where
  "min_of X = float64 (0 - float64 (Min (set X) * scale_of X))"

definition minmax_transform :: "real list \<Rightarrow> real \<Rightarrow> real" where
  "minmax_transform X x = float64 (float64 (x * scale_of X) + min_of X)"

text \<open>The scaler on a column of the frame: the integers are converted to float64 first.\<close>

definition as_float64 :: "int list \<Rightarrow> real list" where
  "as_float64 col = map (\<lambda>v. float64 (of_int v)) col"

definition minmax_fit_transform :: "int list \<Rightarrow> real list" where
  "minmax_fit_transform col = map (minmax_transform (as_float64 col)) (as_float64 col)"

text \<open>
  \<^verbatim>\<open>data_df\<close> after line 62, by columns. The encoders run first and the scaler after them;
  the scaler refuses a table of no rows with ValueError.
\<close>

record criteo_frame =
  label_col :: "int list"
  dense_cols :: "real list list"
  sparse_cols :: "nat list list"

definition preprocess :: "criteo_line list \<Rightarrow> error + criteo_frame" where
  "preprocess lines =
     (let sparse = map (imputed_sparse lines) [0..<26];
          dense = map (imputed_dense lines) [0..<13]
      in case collect (map label_encode sparse) of
           Inl e \<Rightarrow> Inl e
         | Inr sparse \<Rightarrow>
             if lines = [] then Inl (ValueError ''Found array with 0 sample(s)'')
             else Inr \<lparr>label_col = map label lines,
                       dense_cols = map minmax_fit_transform dense,
                       sparse_cols = sparse\<rparr>)"

text \<open>Lines 64 to 66; \<^verbatim>\<open>len(data_df[feat].unique())\<close> counts the distinct encoded ids.\<close>

definition criteo_feature_columns :: "criteo_frame \<Rightarrow> nat \<Rightarrow> feature list list" where
  "criteo_feature_columns df embed_dim =
     [map denseFeature dense_features,
      map (\<lambda>(feat, col). sparseFeature feat (int (length (remdups col))) embed_dim)
        (zip sparse_features (sparse_cols df))]"

text \<open>
  \<^verbatim>\<open>train_test_split(data_df, test_size=test_size)\<close> for a float \<open>test_size\<close>: the sizes
  are \<^verbatim>\<open>n_test = ceil(test_size * n)\<close>, with the product in float64, and
  \<^verbatim>\<open>n_train = n - n_test\<close>; the test positions are the first \<open>n_test\<close> entries of a random
  permutation and the train positions the next \<open>n_train\<close>. A fraction outside \<open>(0, 1)\<close>
  and an empty train set raise ValueError.
\<close>

definition train_test_split :: "rng \<Rightarrow> real \<Rightarrow> nat \<Rightarrow> error + (nat list \<times> nat list)" where
  "train_test_split g test_size n =
     (let test_size = float64 test_size in
      if test_size \<le> 0 \<or> test_size \<ge> 1
      then Inl (ValueError ''test_size should be in the (0, 1) range'')
      else
        let n_test = nat \<lceil>float64 (test_size * float64 (real n))\<rceil>;
            n_train = n - n_test
        in if n_train = 0 then Inl (ValueError ''the resulting train set will be empty'')
           else
             let permutation = g n
             in Inr (take n_train (drop n_test permutation), take n_test permutation))"

text \<open>
  A row of \<^verbatim>\<open>data_df\<close> (label, dense values, sparse ids) and the frame
  \<^verbatim>\<open>data_df.iloc[ind]\<close>, whose rows keep their index labels.
\<close>

type_synonym criteo_row = "int \<times> real list \<times> nat list"

definition row_at :: "criteo_frame \<Rightarrow> nat \<Rightarrow> criteo_row" where
  "row_at df i =
     (label_col df ! i, map (\<lambda>c. c ! i) (dense_cols df), map (\<lambda>c. c ! i) (sparse_cols df))"

definition iloc :: "criteo_frame \<Rightarrow> nat list \<Rightarrow> (nat \<times> criteo_row) list" where
  "iloc df ind = map (\<lambda>i. (i, row_at df i)) ind"

text \<open>Lines 38 to 68: the feature columns and the frames \<^verbatim>\<open>train\<close> and \<^verbatim>\<open>test\<close>.\<close>

definition criteo_frames ::
  "criteo_file \<Rightarrow> nat \<Rightarrow> bool \<Rightarrow> nat \<Rightarrow> real \<Rightarrow> rng \<Rightarrow>
     error + (feature list list \<times> (nat \<times> criteo_row) list \<times> (nat \<times> criteo_row) list)" where
  "criteo_frames file embed_dim read_part sample_num test_size g =
     (let lines = read_lines file read_part sample_num in
      case preprocess lines of
        Inl e \<Rightarrow> Inl e
      | Inr data_df \<Rightarrow>
          (case train_test_split g test_size (length lines) of
             Inl e \<Rightarrow> Inl e
           | Inr (ind_train, ind_test) \<Rightarrow>
               Inr (criteo_feature_columns data_df embed_dim,
                    iloc data_df ind_train, iloc data_df ind_test)))"

text \<open>
  Lines 70 to 73: \<^verbatim>\<open>X = [dense values, sparse ids as int32]\<close> and \<^verbatim>\<open>y = label\<close> as
  int32.
\<close>

type_synonym criteo_xy = "(real list list \<times> int list list) \<times> int list"

definition criteo_arrays :: "(nat \<times> criteo_row) list \<Rightarrow> criteo_xy" where
  "criteo_arrays df =
     ((map (\<lambda>(i, y, ds, cs). ds) df,
       map (\<lambda>(i, y, ds, cs). map (astype_int32 \<circ> int) cs) df),
      map (\<lambda>(i, y, ds, cs). astype_int32 y) df)"

definition dense_values :: "criteo_xy \<Rightarrow> real list list" where
  "dense_values xy = fst (fst xy)"

definition sparse_ids :: "criteo_xy \<Rightarrow> int list list" where
  "sparse_ids xy = snd (fst xy)"

definition create_criteo_dataset ::
  "criteo_file \<Rightarrow> nat \<Rightarrow> bool \<Rightarrow> nat \<Rightarrow> real \<Rightarrow> rng \<Rightarrow>
     error + (feature list list \<times> criteo_xy \<times> criteo_xy)" where
  "create_criteo_dataset file embed_dim read_part sample_num test_size g =
     (case criteo_frames file embed_dim read_part sample_num test_size g of
        Inl e \<Rightarrow> Inl e
      | Inr (feature_columns, train, test) \<Rightarrow>
          Inr (feature_columns, criteo_arrays train, criteo_arrays test))"

text \<open>
  Two files for examples, each read the same way in whole and in part. In the first,
  \<^verbatim>\<open>C1\<close> holds \<^verbatim>\<open>b\<close>, a missing cell and \<^verbatim>\<open>a\<close>, and \<^verbatim>\<open>I1\<close> holds 1, 3 and a missing
  cell. In the second, \<^verbatim>\<open>I1\<close> holds 58, -59 and a missing cell. Every other cell is
  missing.
\<close>

definition example_file :: criteo_file where
  "example_file k =
     [\<lparr>label = 1, dense_cells = [Some 1], sparse_cells = [Some (Str ''b'')]\<rparr>,
      \<lparr>label = 0, dense_cells = [Some 3], sparse_cells = []\<rparr>,
      \<lparr>label = 0, dense_cells = [], sparse_cells = [Some (Str ''a'')]\<rparr>]"


section \<open>Properties of the rating builder\<close>

subsection \<open>Shuffling keeps the rows\<close>

lemma mset_sample_all:
  assumes "permutation_source g"
  shows "mset (sample_all g rows) = mset rows"
proof -
  have "mset (map (\<lambda>i. rows ! i) (g (length rows))) =
        image_mset (\<lambda>i. rows ! i) (mset [0..<length rows])"
    using assms by (simp add: permutation_source_def)
  also have "\<dots> = mset (map (\<lambda>i. rows ! i) [0..<length rows])"
    by simp
  also have "\<dots> = mset rows"
    by (simp add: map_nth)
  finally show ?thesis
    by (simp add: sample_all_def)
qed

lemma length_sample_all:
  assumes "permutation_source g"
  shows "length (sample_all g rows) = length rows"
  using mset_sample_all [OF assms, of rows] by (metis size_mset)

lemma permutation_source_identity: "permutation_source identity_rng"
  by (simp add: permutation_source_def identity_rng_def)

subsection \<open>The frame read from the file\<close>

lemma map_fst_rating_frame: "map fst (rating_frame file) = [0..<length file]"
proof -
  have "map fst (with_avg_score df) = map fst df" for df
    by (simp add: with_avg_score_def case_prod_unfold)
  then show ?thesis
    by (simp add: rating_frame_def read_csv_def)
qed

lemma length_rating_frame: "length (rating_frame file) = length file"
  by (simp add: rating_frame_def with_avg_score_def read_csv_def)

lemma distinct_labels_rating_frame: "distinct (map fst (rating_frame file))"
  by (simp add: map_fst_rating_frame)

lemma map_UserId_rating_frame: "map (UserId \<circ> snd) (rating_frame file) = map UserId file"
proof -
  have "map (UserId \<circ> snd) (with_avg_score df) = map (UserId \<circ> snd) df" for df
    by (simp add: with_avg_score_def case_prod_unfold rating.defs scored.defs)
  moreover have "map (UserId \<circ> snd) (read_csv file) = map UserId (map snd (read_csv file))"
    by simp
  moreover have "map snd (read_csv file) = file"
    by (simp add: read_csv_def)
  ultimately show ?thesis
    by (simp only: rating_frame_def)
qed

lemma watch_count_rating_frame:
  "watch_count (rating_frame file) u = file_rows_of_user u file"
proof -
  have "watch_count df u = length (filter (\<lambda>v. v = u) (map (UserId \<circ> snd) df))" for df
    by (simp add: watch_count_def filter_map comp_def case_prod_unfold)
  moreover have "file_rows_of_user u file = length (filter (\<lambda>v. v = u) (map UserId file))"
    by (simp add: file_rows_of_user_def filter_map comp_def)
  ultimately show ?thesis
    by (simp only: map_UserId_rating_frame)
qed

lemma watch_count_index_empty: "watch_count_index (rating_frame file) = [] \<longleftrightarrow> file = []"
proof -
  have "set (watch_count_index (rating_frame file)) = UserId ` set file"
    unfolding watch_count_index_def
    by (simp only: map_UserId_rating_frame set_sort set_remdups set_map)
  then show ?thesis
    by (metis empty_set image_is_empty set_empty)
qed

subsection \<open>The per-user split\<close>

lemma split_point_le: "split_point n \<le> n"
  unfolding split_point_def by linarith

lemma user_tail_users: "\<forall>p \<in> set (user_tail df v). case p of (i, r) \<Rightarrow> UserId r = v"
  by (auto simp: user_tail_def dest!: in_set_dropD)

lemma filter_user_tail:
  "filter (\<lambda>(i, r). UserId r = u) (user_tail df v) = (if u = v then user_tail df v else [])"
proof (cases "u = v")
  case True
  then show ?thesis
    using user_tail_users [of df v] by (simp add: filter_id_conv)
next
  case False
  then show ?thesis
    using user_tail_users [of df v] by (auto simp: filter_empty_conv)
qed

lemma filter_concat_tails:
  "distinct us \<Longrightarrow>
   filter (\<lambda>(i, r). UserId r = u) (concat (map (user_tail df) us)) =
     (if u \<in> set us then user_tail df u else [])"
proof (induction us)
  case Nil
  then show ?case by simp
next
  case (Cons v us)
  then show ?case by (auto simp: filter_user_tail)
qed

lemma user_tail_not_indexed:
  assumes "u \<notin> set (watch_count_index df)"
  shows "user_tail df u = []"
proof -
  have "filter (\<lambda>(i, r). UserId r = u) df = []"
    using assms by (auto simp: watch_count_index_def filter_empty_conv image_iff)
  then show ?thesis
    by (simp add: user_tail_def)
qed

lemma filter_test_split:
  "filter (\<lambda>(i, r). UserId r = u) (test_split df) = user_tail df u"
  unfolding test_split_def
  by (subst filter_concat_tails) (auto simp: watch_count_index_def user_tail_not_indexed)

lemma length_user_tail:
  "length (user_tail df u) = watch_count df u - split_point (watch_count df u)"
  by (simp add: user_tail_def watch_count_def)

lemma set_test_split: "set (test_split df) \<subseteq> set df"
  by (auto simp: test_split_def user_tail_def dest!: in_set_dropD)

lemma distinct_concat_tails:
  "distinct us \<Longrightarrow> distinct df \<Longrightarrow> distinct (concat (map (user_tail df) us))"
proof (induction us)
  case Nil
  then show ?case by simp
next
  case (Cons v us)
  have "set (user_tail df v) \<inter> set (user_tail df w) = {}" if "w \<in> set us" for w
  proof -
    have "v \<noteq> w"
      using Cons.prems that by auto
    then show ?thesis
      using user_tail_users [of df v] user_tail_users [of df w] by fastforce
  qed
  with Cons show ?case
    by (auto simp: user_tail_def)
qed

lemma distinct_test_split: "distinct df \<Longrightarrow> distinct (test_split df)"
  by (simp add: test_split_def distinct_concat_tails watch_count_index_def)

lemma train_split_alt:
  assumes "distinct (map fst df)"
  shows "train_split df = filter (\<lambda>p. p \<notin> set (test_split df)) df"
proof -
  have "(fst p \<notin> fst ` set (test_split df)) = (p \<notin> set (test_split df))"
    if "p \<in> set df" for p
  proof -
    have "q = p" if "q \<in> set (test_split df)" "fst q = fst p" for q
      using that set_test_split [of df] \<open>p \<in> set df\<close> assms
      by (auto simp: distinct_map dest: inj_onD)
    then show ?thesis
      by (auto simp: image_iff)
  qed
  then show ?thesis
    unfolding train_split_def by (intro filter_cong) (auto simp: case_prod_unfold)
qed

lemma split_partition:
  assumes "distinct (map fst df)"
  shows "mset (train_split df) + mset (test_split df) = mset df"
proof -
  have d: "distinct df"
    using assms by (simp add: distinct_map)
  have "mset (test_split df) = mset (filter (\<lambda>p. p \<in> set (test_split df)) df)"
    using d distinct_test_split [OF d] set_test_split [of df]
    by (intro iffD1 [OF set_eq_iff_mset_eq_distinct]) auto
  then show ?thesis
    by (simp add: train_split_alt [OF assms] add.commute)
qed

lemma length_filter_train_split:
  assumes "distinct (map fst df)"
  shows "length (filter (\<lambda>(i, r). UserId r = u) (train_split df)) =
         split_point (watch_count df u)"
proof -
  let ?P = "\<lambda>(i, r). UserId (r :: scored) = u"
  have "size (filter_mset ?P (mset (train_split df) + mset (test_split df))) =
        size (filter_mset ?P (mset df))"
    by (simp only: split_partition [OF assms])
  then have "length (filter ?P (train_split df)) + length (filter ?P (test_split df)) =
        length (filter ?P df)"
    by (simp flip: mset_filter)
  then show ?thesis
    using split_point_le [of "watch_count df u"]
    by (simp add: filter_test_split length_user_tail watch_count_def)
qed

subsection \<open>The output arrays\<close>

lemma rows_of_user_arrays:
  assumes "permutation_source g"
  shows "rows_of_user u (rating_arrays (sample_all g (map drop_Timestamp df))) =
         length (filter (\<lambda>(i, r). UserId r = u) df)"
proof -
  let ?P = "\<lambda>r. s_UserId r = u"
  have "rows_of_user u (rating_arrays rs) = size (filter_mset ?P (mset rs))" for rs
    by (simp add: rows_of_user_def rating_arrays_def filter_map comp_def flip: mset_filter)
  then have "rows_of_user u (rating_arrays (sample_all g (map drop_Timestamp df))) =
      size (filter_mset ?P (mset (map drop_Timestamp df)))"
    by (simp only: mset_sample_all [OF assms])
  also have "\<dots> = length (filter ?P (map drop_Timestamp df))"
    by (simp only: size_mset flip: mset_filter)
  also have "\<dots> = length (filter (\<lambda>(i, r). UserId r = u) df)"
    by (simp add: filter_map comp_def drop_Timestamp_def case_prod_unfold)
  finally show ?thesis .
qed

lemma mset_xy_rows:
  assumes "permutation_source g"
  shows "mset (xy_rows (rating_arrays (sample_all g (map drop_Timestamp df)))) =
         image_mset sample_of (mset df)"
proof -
  have "xy_rows (rating_arrays rs) =
        map (\<lambda>r. (s_avg_score r, (s_UserId r, s_MovieId r), astype_int32 (s_Rating r))) rs"
    for rs
    by (induction rs) (simp_all add: xy_rows_def rating_arrays_def)
  then have "mset (xy_rows (rating_arrays (sample_all g (map drop_Timestamp df)))) =
     image_mset (\<lambda>r. (s_avg_score r, (s_UserId r, s_MovieId r), astype_int32 (s_Rating r)))
       (mset (map drop_Timestamp df))"
    by (simp only: mset_map mset_sample_all [OF assms])
  then show ?thesis
    unfolding sample_of_def [abs_def]
    by (simp add: multiset.map_comp comp_def drop_Timestamp_def)
qed

lemma length_xy_rows_arrays: "length (xy_rows (rating_arrays rs)) = length rs"
  by (simp add: xy_rows_def rating_arrays_def)

text \<open>
  The builder returns on every file that has a line, and each user's rows are divided
  at \<open>split_point\<close>.
\<close>

lemma rating_builder_counts:
  assumes "file \<noteq> []" and "permutation_source g_train" and "permutation_source g_test"
  shows "\<exists>fc train test.
           create_explicit_ml_1m_dataset file latent_dim test_size g_train g_test =
             Inr (fc, train, test) \<and>
           (\<forall>u. rows_of_user u test =
                  file_rows_of_user u file - split_point (file_rows_of_user u file) \<and>
                rows_of_user u train = split_point (file_rows_of_user u file))"
  using assms
  by (simp add: create_explicit_ml_1m_dataset_def Let_def watch_count_index_empty
      rows_of_user_arrays filter_test_split length_user_tail length_filter_train_split
      distinct_labels_rating_frame watch_count_rating_frame)

subsection \<open>The claims about the rating builder\<close>

text \<open>
  Claim C3. For every user, the test partition of the rating builder holds
  \<open>watch_count - floor(0.8 * watch_count)\<close> of that user's rows and the train partition
  the other \<open>floor(0.8 * watch_count)\<close>, where \<open>watch_count\<close> is the number of the user's
  rows in the file. The builder returns on every file with at least one line.
\<close>

theorem rating_split_counts:
  assumes "file \<noteq> []" and "permutation_source g_train" and "permutation_source g_test"
  shows "\<exists>fc train test.
           create_explicit_ml_1m_dataset file latent_dim test_size g_train g_test =
             Inr (fc, train, test) \<and>
           (\<forall>u. rows_of_user u test =
                  file_rows_of_user u file - nat \<lfloor>0.8 * real (file_rows_of_user u file)\<rfloor> \<and>
                rows_of_user u train = nat \<lfloor>0.8 * real (file_rows_of_user u file)\<rfloor>)"
  using rating_builder_counts [OF assms, of latent_dim test_size]
  by (simp add: split_point_def)

theorem rating_split_counts_witness:
  "[\<lparr>UserId = 1, MovieId = 10, Rating = 5, Timestamp = 300\<rparr>,
    \<lparr>UserId = 1, MovieId = 11, Rating = 4, Timestamp = 100\<rparr>] \<noteq> [] \<and>
   permutation_source identity_rng \<and>
   (\<exists>fc train test.
      create_explicit_ml_1m_dataset
        [\<lparr>UserId = 1, MovieId = 10, Rating = 5, Timestamp = 300\<rparr>,
         \<lparr>UserId = 1, MovieId = 11, Rating = 4, Timestamp = 100\<rparr>]
        4 0.2 identity_rng identity_rng = Inr (fc, train, test) \<and>
      rows_of_user 1 test = 1 \<and> rows_of_user 1 train = 1)"
proof -
  let ?file = "[\<lparr>UserId = 1, MovieId = 10, Rating = 5, Timestamp = 300\<rparr>,
    \<lparr>UserId = 1, MovieId = 11, Rating = 4, Timestamp = 100\<rparr>]"
  have n: "?file \<noteq> []" by simp
  have c: "file_rows_of_user 1 ?file = 2"
    by (simp add: file_rows_of_user_def)
  obtain fc train test where
    r: "create_explicit_ml_1m_dataset ?file 4 0.2 identity_rng identity_rng = Inr (fc, train, test)"
    and u: "\<forall>u. rows_of_user u test =
                  file_rows_of_user u ?file - nat \<lfloor>0.8 * real (file_rows_of_user u ?file)\<rfloor> \<and>
                rows_of_user u train = nat \<lfloor>0.8 * real (file_rows_of_user u ?file)\<rfloor>"
    using rating_split_counts [OF n permutation_source_identity permutation_source_identity, of 4 "0.2"]
    by blast
  have "rows_of_user 1 test = 1 \<and> rows_of_user 1 train = 1"
    using u [rule_format, of 1] by (simp add: c)
  with r n permutation_source_identity show ?thesis by blast
qed

text \<open>
  Claim C4, as stated, fails. A file with one line: the user has exactly one row,
  \<open>int(0.8 * 1) = 0\<close>, so \<open>iloc[0:]\<close> keeps the row; it is the test partition and the
  train partition is empty.
\<close>

theorem single_row_user_counterexample:
  "file_rows_of_user 1 [\<lparr>UserId = 1, MovieId = 10, Rating = 5, Timestamp = 300\<rparr>] = 1 \<and>
   create_explicit_ml_1m_dataset [\<lparr>UserId = 1, MovieId = 10, Rating = 5, Timestamp = 300\<rparr>]
       4 0.2 identity_rng identity_rng =
     Inr ([[denseFeature ''avg_score''],
           [sparseFeature ''user_id'' 2 4, sparseFeature ''item_id'' 11 4]],
          (([], []), []),
          (([5], [(1, 10)]), [5])) \<and>
   rows_of_user 1 (([5], [(1, 10)]), [5]) \<noteq> 0"
  by (simp add: create_explicit_ml_1m_dataset_def rating_frame_def read_csv_def
      with_avg_score_def group_mean_def watch_count_index_def test_split_def train_split_def
      user_tail_def watch_count_def split_point_def sample_all_def identity_rng_def
      drop_Timestamp_def rating_arrays_def astype_int32_def rating.defs scored.defs
      rows_of_user_def file_rows_of_user_def)

text \<open>
  Claim C4, amended. Every user that has exactly 1 row in the input contributes that row
  to the test partition and no row to the train partition.
\<close>

theorem single_row_user_in_test:
  assumes "file_rows_of_user u file = 1"
    and "permutation_source g_train" and "permutation_source g_test"
  shows "\<exists>fc train test.
           create_explicit_ml_1m_dataset file latent_dim test_size g_train g_test =
             Inr (fc, train, test) \<and>
           rows_of_user u test = 1 \<and> rows_of_user u train = 0"
proof -
  have n: "file \<noteq> []"
    using assms(1) by (auto simp: file_rows_of_user_def)
  have "split_point 1 = 0"
    by (simp add: split_point_def)
  then show ?thesis
    using rating_builder_counts [OF n assms(2,3), of latent_dim test_size] assms(1)
    by fastforce
qed

theorem single_row_user_in_test_witness:
  "file_rows_of_user 7 [\<lparr>UserId = 7, MovieId = 3, Rating = 4, Timestamp = 9\<rparr>] = 1 \<and>
   permutation_source identity_rng \<and>
   (\<exists>fc train test.
      create_explicit_ml_1m_dataset [\<lparr>UserId = 7, MovieId = 3, Rating = 4, Timestamp = 9\<rparr>]
        4 0.2 identity_rng identity_rng = Inr (fc, train, test) \<and>
      rows_of_user 7 test = 1 \<and> rows_of_user 7 train = 0)"
proof -
  have c: "file_rows_of_user 7 [\<lparr>UserId = 7, MovieId = 3, Rating = 4, Timestamp = 9\<rparr>] = 1"
    by (simp add: file_rows_of_user_def)
  show ?thesis
    using c permutation_source_identity
      single_row_user_in_test [OF c permutation_source_identity permutation_source_identity, of 4 "0.2"]
    by blast
qed

text \<open>
  Claim C5. The docstring promises the last 20% of each user's ratings in order of
  timestamp; the code slices each user's rows in file order. On a file whose lines are
  not in order of timestamp the two differ: here the test partition is the rating of
  movie 14, the earliest of the user's ratings, where the chronologically last is the
  rating of movie 10.
\<close>

theorem test_rows_in_file_order_not_time_order:
  "create_explicit_ml_1m_dataset
       [\<lparr>UserId = 1, MovieId = 10, Rating = 5, Timestamp = 300\<rparr>,
        \<lparr>UserId = 1, MovieId = 11, Rating = 4, Timestamp = 100\<rparr>,
        \<lparr>UserId = 1, MovieId = 12, Rating = 3, Timestamp = 200\<rparr>,
        \<lparr>UserId = 1, MovieId = 13, Rating = 3, Timestamp = 250\<rparr>,
        \<lparr>UserId = 1, MovieId = 14, Rating = 2, Timestamp = 50\<rparr>]
       4 0.2 identity_rng identity_rng =
     Inr ([[denseFeature ''avg_score''],
           [sparseFeature ''user_id'' 2 4, sparseFeature ''item_id'' 15 4]],
          (([17 / 5, 17 / 5, 17 / 5, 17 / 5], [(1, 10), (1, 11), (1, 12), (1, 13)]),
           [5, 4, 3, 3]),
          (([17 / 5], [(1, 14)]), [2])) \<and>
   time_ordered_tail
       [\<lparr>UserId = 1, MovieId = 10, Rating = 5, Timestamp = 300\<rparr>,
        \<lparr>UserId = 1, MovieId = 11, Rating = 4, Timestamp = 100\<rparr>,
        \<lparr>UserId = 1, MovieId = 12, Rating = 3, Timestamp = 200\<rparr>,
        \<lparr>UserId = 1, MovieId = 13, Rating = 3, Timestamp = 250\<rparr>,
        \<lparr>UserId = 1, MovieId = 14, Rating = 2, Timestamp = 50\<rparr>] 1 =
     [\<lparr>UserId = 1, MovieId = 10, Rating = 5, Timestamp = 300\<rparr>]"
  by code_simp

text \<open>
  Claim C8. The parameter \<open>test_size\<close> of the rating builder has no effect: with the same
  file, latent dimension and shuffles, any two values give the same result.
\<close>

theorem rating_builder_ignores_test_size:
  "create_explicit_ml_1m_dataset file latent_dim test_size g_train g_test =
   create_explicit_ml_1m_dataset file latent_dim test_size' g_train g_test"
  by (simp add: create_explicit_ml_1m_dataset_def)

text \<open>
  Claim C10. The split of the rating builder is a partition of the input rows: the rows of
  \<^verbatim>\<open>data_df\<close> carry the labels \<open>0, \<dots>, n - 1\<close>, each row is in exactly one of
  \<^verbatim>\<open>train_df\<close> and \<^verbatim>\<open>test_df\<close>, no label is in both, and the outputs hold the samples
  of these rows, as many as the file has lines.
\<close>

theorem rating_split_partition:
  assumes "file \<noteq> []" and "permutation_source g_train" and "permutation_source g_test"
  shows "\<exists>fc train test.
           create_explicit_ml_1m_dataset file latent_dim test_size g_train g_test =
             Inr (fc, train, test) \<and>
           mset (xy_rows train) + mset (xy_rows test) =
             image_mset sample_of (mset (rating_frame file)) \<and>
           length (xy_rows train) + length (xy_rows test) = length file \<and>
           map fst (rating_frame file) = [0..<length file] \<and>
           mset (train_split (rating_frame file)) + mset (test_split (rating_frame file)) =
             mset (rating_frame file) \<and>
           set (map fst (train_split (rating_frame file))) \<inter>
             set (map fst (test_split (rating_frame file))) = {}"
proof -
  let ?df = "rating_frame file"
  have part: "mset (train_split ?df) + mset (test_split ?df) = mset ?df"
    by (rule split_partition [OF distinct_labels_rating_frame])
  have len: "length (train_split ?df) + length (test_split ?df) = length file"
  proof -
    have "size (mset (train_split ?df) + mset (test_split ?df)) = size (mset ?df)"
      by (simp only: part)
    then show ?thesis
      by (simp add: length_rating_frame)
  qed
  have disj: "set (map fst (train_split ?df)) \<inter> set (map fst (test_split ?df)) = {}"
    by (force simp: train_split_def)
  have rows:
    "mset (xy_rows (rating_arrays (sample_all g_train (map drop_Timestamp (train_split ?df))))) +
     mset (xy_rows (rating_arrays (sample_all g_test (map drop_Timestamp (test_split ?df))))) =
     image_mset sample_of (mset ?df)"
    by (simp only: mset_xy_rows assms flip: image_mset_union part)
  have lens:
    "length (xy_rows (rating_arrays (sample_all g_train (map drop_Timestamp (train_split ?df))))) +
     length (xy_rows (rating_arrays (sample_all g_test (map drop_Timestamp (test_split ?df))))) =
     length file"
    using len assms by (simp add: length_xy_rows_arrays length_sample_all)
  show ?thesis
    using assms(1) rows lens part disj
    by (simp add: create_explicit_ml_1m_dataset_def Let_def watch_count_index_empty
        map_fst_rating_frame)
qed

theorem rating_split_partition_witness:
  "[\<lparr>UserId = 1, MovieId = 10, Rating = 5, Timestamp = 300\<rparr>,
    \<lparr>UserId = 2, MovieId = 11, Rating = 4, Timestamp = 100\<rparr>] \<noteq> [] \<and>
   permutation_source identity_rng \<and>
   (\<exists>fc train test.
      create_explicit_ml_1m_dataset
        [\<lparr>UserId = 1, MovieId = 10, Rating = 5, Timestamp = 300\<rparr>,
         \<lparr>UserId = 2, MovieId = 11, Rating = 4, Timestamp = 100\<rparr>]
        4 0.2 identity_rng identity_rng = Inr (fc, train, test) \<and>
      length (xy_rows train) + length (xy_rows test) = 2)"
proof -
  let ?file = "[\<lparr>UserId = 1, MovieId = 10, Rating = 5, Timestamp = 300\<rparr>,
    \<lparr>UserId = 2, MovieId = 11, Rating = 4, Timestamp = 100\<rparr>]"
  have n: "?file \<noteq> []" by simp
  show ?thesis
    using n permutation_source_identity
      rating_split_partition [OF n permutation_source_identity permutation_source_identity, of 4 "0.2"]
    by auto
qed

section \<open>Properties of the CTR builder\<close>

subsection \<open>Rounding to float64\<close>

text \<open>
  The rounding is odd, monotone and idempotent, it keeps the sign, and it leaves an
  integer below \<open>2 ^ 53\<close> in magnitude unchanged.
\<close>

lemma round_half_even_of_int [simp]: "round_half_even (of_int n) = n"
  by (simp add: round_half_even_def)

lemma round_half_even_numeral [simp]: "round_half_even (numeral n) = numeral n"
  using round_half_even_of_int [of "numeral n"] by simp


lemma two_powr_int: "(2::real) powr real_of_int k = 2 powi k"
  by (simp add: powr_real_of_int')

lemma two_powr_int_Suc: "(2::real) powr (real_of_int k + 1) = 2 powi (k + 1)"
  using two_powr_int [of "k + 1"] by simp

lemma binade_iff:
  assumes "0 < a"
  shows "\<lfloor>log 2 a\<rfloor> = e \<longleftrightarrow> 2 powi e \<le> a \<and> a < 2 powi (e + 1)"
  using floor_log_eq_powr_iff [of a 2 e] assms
  by (simp only: two_powr_int two_powr_int_Suc)

lemma binade:
  assumes "0 < a"
  shows "2 powi \<lfloor>log 2 a\<rfloor> \<le> a" and "a < 2 powi (\<lfloor>log 2 a\<rfloor> + 1)"
  using binade_iff [OF assms, of "\<lfloor>log 2 a\<rfloor>"] by simp_all

lemma binade_unique:
  assumes "2 powi e \<le> a" and "a < 2 powi (e + 1)"
  shows "\<lfloor>log 2 a\<rfloor> = e"
proof -
  have "(0::real) < 2 powi e"
    by simp
  then have "0 < a"
    using assms(1) by linarith
  then show ?thesis
    using binade_iff [of a e] assms by simp
qed

lemma float64_zero [simp]: "float64 0 = 0"
  by (simp add: float64_def)

lemma float64_minus: "float64 (- x) = - float64 x"
  by (simp add: float64_def Let_def sgn_minus)

text \<open>Evaluation in a known binade.\<close>

lemma float64_in_binade:
  assumes "2 powi e \<le> \<bar>x\<bar>" and "\<bar>x\<bar> < 2 powi (e + 1)"
  shows "float64 x = sgn x * (of_int (round_half_even (\<bar>x\<bar> / 2 powi (e - 52))) * 2 powi (e - 52))"
proof -
  have "(0::real) < 2 powi e"
    by simp
  then have "0 < \<bar>x\<bar>"
    using assms(1) by linarith
  then have "x \<noteq> 0"
    by simp
  then show ?thesis
    by (simp add: float64_def Let_def binade_unique [OF assms])
qed


lemma float64_pos_form:
  assumes "0 < x"
  shows "float64 x =
     of_int (round_half_even (x / 2 powi (\<lfloor>log 2 x\<rfloor> - 52))) * 2 powi (\<lfloor>log 2 x\<rfloor> - 52)"
  using assms by (simp add: float64_def Let_def)







lemma float64_of_int:
  assumes "\<bar>k\<bar> < 2 ^ 53"
  shows "float64 (of_int k) = of_int k"
proof -
  have pos: "float64 (of_int k) = of_int k" if "0 < k" "k < 2 ^ 53" for k :: int
  proof -
    let ?x = "real_of_int k"
    let ?e = "\<lfloor>log 2 ?x\<rfloor>"
    have x: "0 < ?x"
      using that(1) by simp
    have "?x < 2 ^ 53"
      using that(2) by (metis of_int_less_iff of_int_numeral of_int_power)
    then have "(2::real) powi ?e < 2 powi 53"
      using binade(1) [OF x] by simp
    then have "?e < 53"
      by (intro power_int_le_imp_less_exp [of "2::real"]) simp_all
    then have e: "?e \<le> 52"
      by simp
    have "?e - 52 = - int (nat (52 - ?e))"
      using e by simp
    then have "2 powi (?e - 52) = inverse ((2::real) ^ nat (52 - ?e))"
      by (simp only: power_int_minus power_int_of_nat)
    then have "?x / 2 powi (?e - 52) = of_int (k * 2 ^ nat (52 - ?e))"
      by (simp add: field_simps)
    then have "of_int (round_half_even (?x / 2 powi (?e - 52))) * 2 powi (?e - 52) =
        ?x / 2 powi (?e - 52) * 2 powi (?e - 52)"
      by (simp only: round_half_even_of_int)
    also have "\<dots> = ?x"
      by simp
    finally show ?thesis
      by (simp only: float64_pos_form [OF x])
  qed
  consider "0 < k" | "k = 0" | "k < 0"
    by linarith
  then show ?thesis
  proof cases
    case 1
    then show ?thesis
      using pos [of k] assms by simp
  next
    case 2
    then show ?thesis
      by simp
  next
    case 3
    then have "float64 (of_int (- k)) = of_int (- k)"
      using pos [of "- k"] assms by simp
    then show ?thesis
      by (simp add: float64_minus)
  qed
qed

lemma float64_numeral: "numeral n < (2::int) ^ 53 \<Longrightarrow> float64 (numeral n) = numeral n"
  using float64_of_int [of "numeral n"] by simp

subsection \<open>The label encoder\<close>

text \<open>
  The id of a value is the number of distinct values of the column below it, and it is
  below the number of distinct values of the column.
\<close>

lemma set_classes: "set (classes col) = set col"
  by (simp add: classes_def)

lemma distinct_classes: "distinct (classes col)"
  by (simp add: classes_def)

lemma sorted_classes: "sorted (classes col)"
  by (simp add: classes_def)

lemma index_of_rank:
  "sorted cs \<Longrightarrow> distinct cs \<Longrightarrow> v \<in> set cs \<Longrightarrow> index_of cs v = card {c \<in> set cs. c < v}"
proof (induction cs)
  case Nil
  then show ?case by simp
next
  case (Cons c cs)
  show ?case
  proof (cases "c = v")
    case True
    then have "{x \<in> set (c # cs). x < v} = {}"
      using Cons.prems by auto
    with True show ?thesis by simp
  next
    case False
    then have v: "v \<in> set cs" and lt: "c < v"
      using Cons.prems by auto
    have "{x \<in> set (c # cs). x < v} = insert c {x \<in> set cs. x < v}"
      using lt by auto
    moreover have "c \<notin> {x \<in> set cs. x < v}"
      using Cons.prems by auto
    ultimately have "card {x \<in> set (c # cs). x < v} = Suc (card {x \<in> set cs. x < v})"
      by simp
    with False Cons v show ?thesis by simp
  qed
qed

lemma fit_transform_rank:
  "fit_transform col = map (\<lambda>v. card {c \<in> set col. c < v}) col"
proof -
  have "index_of (classes col) v = card {c \<in> set col. c < v}" if "v \<in> set col" for v
    using index_of_rank [OF sorted_classes distinct_classes, of v col] that
    by (simp add: set_classes)
  then show ?thesis
    by (simp add: fit_transform_def)
qed

lemma pyval_less_Str: "is_Str c \<Longrightarrow> is_Str v \<Longrightarrow> pyval_less c v \<longleftrightarrow> the_Str c < the_Str v"
  by (cases c; cases v) simp_all

lemma pyval_less_Num: "is_Num c \<Longrightarrow> is_Num v \<Longrightarrow> pyval_less c v \<longleftrightarrow> the_Num c < the_Num v"
  by (cases c; cases v) simp_all

lemma the_Str_inject: "is_Str x \<Longrightarrow> is_Str y \<Longrightarrow> the_Str x = the_Str y \<Longrightarrow> x = y"
  by (cases x; cases y) simp_all

lemma the_Num_inject: "is_Num x \<Longrightarrow> is_Num y \<Longrightarrow> the_Num x = the_Num y \<Longrightarrow> x = y"
  by (cases x; cases y) simp_all

lemma pyval_less_irrefl: "\<not> pyval_less v v"
  by (cases v) simp_all

text \<open>The rank among the projections is the rank among the values.\<close>

lemma rank_projection:
  fixes f :: "pyval \<Rightarrow> 'a::linorder"
  assumes inj: "inj_on f (set col)"
    and less: "\<And>c v. c \<in> set col \<Longrightarrow> v \<in> set col \<Longrightarrow> pyval_less c v \<longleftrightarrow> f c < f v"
    and v: "v \<in> set col"
  shows "card {c \<in> set (map f col). c < f v} = card {c \<in> set col. pyval_less c v}"
proof -
  have "{c \<in> set (map f col). c < f v} = f ` {c \<in> set col. pyval_less c v}"
    using less v by auto
  moreover have "inj_on f {c \<in> set col. pyval_less c v}"
    by (rule inj_on_subset [OF inj]) auto
  ultimately show ?thesis
    by (simp add: card_image)
qed

lemma label_encode_rank:
  assumes "label_encode col = Inr ids"
  shows "ids = map (\<lambda>v. card {c \<in> set col. pyval_less c v}) col"
proof (cases "list_all is_Str col")
  case True
  then have s: "\<forall>v \<in> set col. is_Str v"
    by (simp add: list_all_iff)
  then have inj: "inj_on the_Str (set col)"
    by (auto intro!: inj_onI the_Str_inject)
  have "ids = fit_transform (map the_Str col)"
    using assms True by (simp add: label_encode_def)
  also have "\<dots> = map (\<lambda>v. card {c \<in> set (map the_Str col). c < the_Str v}) col"
    by (simp add: fit_transform_rank comp_def)
  also have "\<dots> = map (\<lambda>v. card {c \<in> set col. pyval_less c v}) col"
    by (intro map_cong refl rank_projection [OF inj]) (use s in \<open>auto simp: pyval_less_Str\<close>)
  finally show ?thesis .
next
  case False
  then have n: "list_all is_Num col"
    using assms by (auto simp: label_encode_def split: if_splits)
  then have s: "\<forall>v \<in> set col. is_Num v"
    by (simp add: list_all_iff)
  then have inj: "inj_on the_Num (set col)"
    by (auto intro!: inj_onI the_Num_inject)
  have "ids = fit_transform (map the_Num col)"
    using assms False n by (simp add: label_encode_def)
  also have "\<dots> = map (\<lambda>v. card {c \<in> set (map the_Num col). c < the_Num v}) col"
    by (simp add: fit_transform_rank comp_def)
  also have "\<dots> = map (\<lambda>v. card {c \<in> set col. pyval_less c v}) col"
    by (intro map_cong refl rank_projection [OF inj]) (use s in \<open>auto simp: pyval_less_Num\<close>)
  finally show ?thesis .
qed

lemma rank_less_card:
  assumes "v \<in> set col"
  shows "card {c \<in> set col. pyval_less c v} < card (set col)"
proof (rule psubset_card_mono)
  show "finite (set col)"
    by simp
  have "v \<notin> {c \<in> set col. pyval_less c v}"
    by (simp add: pyval_less_irrefl)
  with assms show "{c \<in> set col. pyval_less c v} \<subset> set col"
    by blast
qed

lemma collect_Inr:
  "collect rs = Inr xs \<Longrightarrow> rs = map Inr xs"
proof (induction rs arbitrary: xs)
  case Nil
  then show ?case by simp
next
  case (Cons r rs)
  then show ?case
    by (auto split: sum.splits)
qed

lemma collect_map_Inr: "collect (map Inr xs) = Inr xs"
  by (induction xs) simp_all

lemma collect_defined:
  assumes "\<forall>r \<in> set rs. \<exists>x. r = Inr x"
  shows "\<exists>xs. collect rs = Inr xs"
  using assms
proof (induction rs)
  case Nil
  then show ?case by simp
next
  case (Cons r rs)
  then show ?case
    by (auto split: sum.splits)
qed

subsection \<open>The frame after encoding and scaling\<close>

lemma nth_map_range:
  fixes f :: "nat \<Rightarrow> 'b"
  assumes "j < n"
  shows "map f [0..<n] ! j = f j"
  using assms by simp

lemma preprocess_cases:
  assumes "preprocess lines = Inr df"
  obtains sparse where
    "collect (map label_encode (map (imputed_sparse lines) [0..<26])) = Inr sparse"
    and "lines \<noteq> []"
    and "df = \<lparr>label_col = map label lines,
              dense_cols = map minmax_fit_transform (map (imputed_dense lines) [0..<13]),
              sparse_cols = sparse\<rparr>"
proof (cases "collect (map label_encode (map (imputed_sparse lines) [0..<26]))")
  case (Inl e)
  then show ?thesis
    using assms unfolding preprocess_def Let_def by (simp only: sum.case sum.distinct)
next
  case (Inr sparse)
  show ?thesis
  proof (cases "lines = []")
    case True
    show ?thesis
      using assms Inr unfolding preprocess_def Let_def
      by (simp only: sum.case if_P [OF True] sum.distinct)
  next
    case False
    have "df = \<lparr>label_col = map label lines,
              dense_cols = map minmax_fit_transform (map (imputed_dense lines) [0..<13]),
              sparse_cols = sparse\<rparr>"
      using assms Inr unfolding preprocess_def Let_def
      by (simp only: sum.case if_not_P [OF False] sum.inject)
    with Inr False show ?thesis
      by (rule that)
  qed
qed

lemma preprocess_Inr:
  assumes "preprocess lines = Inr df"
  shows "lines \<noteq> []"
    and "label_col df = map label lines"
    and "length (dense_cols df) = 13"
    and "j < 13 \<Longrightarrow> dense_cols df ! j = minmax_fit_transform (imputed_dense lines j)"
    and "length (sparse_cols df) = 26"
    and "j < 26 \<Longrightarrow> label_encode (imputed_sparse lines j) = Inr (sparse_cols df ! j)"
proof -
  obtain sparse where
    c: "collect (map label_encode (map (imputed_sparse lines) [0..<26])) = Inr sparse"
    and ne: "lines \<noteq> []"
    and df: "df = \<lparr>label_col = map label lines,
              dense_cols = map minmax_fit_transform (map (imputed_dense lines) [0..<13]),
              sparse_cols = sparse\<rparr>"
    using assms by (rule preprocess_cases)
  show "lines \<noteq> []"
    by (rule ne)
  show "label_col df = map label lines"
    by (simp only: df criteo_frame.simps)
  have d: "dense_cols df = map (\<lambda>j. minmax_fit_transform (imputed_dense lines j)) [0..<13]"
    by (simp only: df criteo_frame.simps map_map comp_def)
  show "length (dense_cols df) = 13"
    by (simp only: d length_map length_upt)
  show "dense_cols df ! j = minmax_fit_transform (imputed_dense lines j)" if "j < 13"
    by (simp only: d nth_map_range [OF that])
  have m: "map (\<lambda>j. label_encode (imputed_sparse lines j)) [0..<26] = map Inr sparse"
    using collect_Inr [OF c] by (simp only: map_map comp_def)
  have s: "sparse_cols df = sparse"
    by (simp only: df criteo_frame.simps)
  have "length (map (\<lambda>j. label_encode (imputed_sparse lines j)) [0..<26]) = length (map Inr sparse :: (error + nat list) list)"
    by (simp only: m)
  then have len: "length sparse = 26"
    by (simp only: length_map length_upt)
  show "length (sparse_cols df) = 26"
    by (simp only: s len)
  show "label_encode (imputed_sparse lines j) = Inr (sparse_cols df ! j)" if "j < 26"
  proof -
    have "map (\<lambda>j. label_encode (imputed_sparse lines j)) [0..<26] ! j = map Inr sparse ! j"
      by (simp only: m)
    then show ?thesis
      using that len by (simp only: nth_map_range [OF that] s) simp
  qed
qed

lemma preprocess_defined:
  assumes "lines \<noteq> []"
    and "\<And>j. j < 26 \<Longrightarrow> \<exists>ids. label_encode (imputed_sparse lines j) = Inr ids"
  shows "\<exists>df. preprocess lines = Inr df"
proof -
  have "\<forall>r \<in> set (map label_encode (map (imputed_sparse lines) [0..<26])). \<exists>x. r = Inr x"
    using assms(2) by auto
  from collect_defined [OF this] obtain sparse where
    "collect (map label_encode (map (imputed_sparse lines) [0..<26])) = Inr sparse"
    by blast
  then show ?thesis
    unfolding preprocess_def Let_def by (simp only: sum.case if_not_P [OF assms(1)]) blast
qed

subsection \<open>The split and the output arrays\<close>

lemma train_test_split_Inr:
  assumes "train_test_split g test_size n = Inr (ind_train, ind_test)"
  obtains k where "ind_train = take (n - k) (drop k (g n))" and "ind_test = take k (g n)"
  using assms by (auto simp: train_test_split_def Let_def split: if_splits)

lemma split_indices_partition:
  assumes "permutation_source g"
    and "train_test_split g test_size n = Inr (ind_train, ind_test)"
  shows "mset ind_train + mset ind_test = mset [0..<n]"
proof -
  obtain k where tr: "ind_train = take (n - k) (drop k (g n))" and te: "ind_test = take k (g n)"
    using assms(2) by (rule train_test_split_Inr)
  have p: "mset (g n) = mset [0..<n]"
    using assms(1) by (simp add: permutation_source_def)
  then have "length (g n) = n"
    by (metis size_mset length_upt diff_zero)
  then have "ind_train = drop k (g n)"
    by (simp add: tr)
  moreover have "mset (drop k (g n)) + mset (take k (g n)) = mset (g n)"
    by (metis add.commute append_take_drop_id mset_append)
  ultimately show ?thesis
    by (simp only: te p)
qed

lemma split_indices_bounds:
  assumes "permutation_source g"
    and "train_test_split g test_size n = Inr (ind_train, ind_test)"
  shows "set ind_train \<subseteq> {..<n}" and "set ind_test \<subseteq> {..<n}"
    and "set ind_train \<inter> set ind_test = {}"
proof -
  have m: "mset (ind_train @ ind_test) = mset [0..<n]"
    using split_indices_partition [OF assms] by simp
  have "set (ind_train @ ind_test) = set [0..<n]"
    by (rule mset_eq_setD [OF m])
  then have "set ind_train \<union> set ind_test = {..<n}"
    by (simp add: atLeast0LessThan)
  then show "set ind_train \<subseteq> {..<n}" and "set ind_test \<subseteq> {..<n}"
    by blast+
  have "distinct (ind_train @ ind_test)"
    using mset_eq_imp_distinct_iff [OF m] by simp
  then show "set ind_train \<inter> set ind_test = {}"
    by simp
qed

lemma criteo_frames_Inr:
  assumes "criteo_frames file embed_dim read_part sample_num test_size g = Inr (fc, train, test)"
  obtains df ind_train ind_test where
    "preprocess (read_lines file read_part sample_num) = Inr df"
    and "train_test_split g test_size (length (read_lines file read_part sample_num)) =
           Inr (ind_train, ind_test)"
    and "fc = criteo_feature_columns df embed_dim"
    and "train = iloc df ind_train" and "test = iloc df ind_test"
  using assms
  by (auto simp: criteo_frames_def Let_def split: sum.splits)

lemma create_of_frames:
  assumes "criteo_frames file embed_dim read_part sample_num test_size g = Inr (fc, train, test)"
  shows "create_criteo_dataset file embed_dim read_part sample_num test_size g =
           Inr (fc, criteo_arrays train, criteo_arrays test)"
  using assms by (simp add: create_criteo_dataset_def)

text \<open>Every result of the builder is the arrays of the frames of line 68.\<close>

lemma create_criteo_dataset_Inr:
  assumes "create_criteo_dataset file embed_dim read_part sample_num test_size g =
             Inr (fc, train_xy, test_xy)"
  shows "\<exists>train test.
           criteo_frames file embed_dim read_part sample_num test_size g = Inr (fc, train, test) \<and>
           train_xy = criteo_arrays train \<and> test_xy = criteo_arrays test"
  using assms by (auto simp: create_criteo_dataset_def split: sum.splits)

lemma map_fst_iloc: "map fst (iloc df ind) = ind"
  by (simp add: iloc_def comp_def)

lemma length_iloc: "length (iloc df ind) = length ind"
  by (simp add: iloc_def)

lemma sparse_ids_arrays:
  "sparse_ids (criteo_arrays fr) = map (\<lambda>p. map (astype_int32 \<circ> int) (snd (snd (snd p)))) fr"
  by (simp add: sparse_ids_def criteo_arrays_def case_prod_unfold)

lemma dense_values_arrays:
  "dense_values (criteo_arrays fr) = map (\<lambda>p. fst (snd (snd p))) fr"
  by (simp add: dense_values_def criteo_arrays_def case_prod_unfold)

lemma length_imputed_sparse: "length (imputed_sparse lines j) = length lines"
  by (simp add: imputed_sparse_def fillna_def sparse_column_def)


text \<open>The entries of the output arrays, in terms of the columns of \<^verbatim>\<open>data_df\<close>.\<close>

lemma frame_entries:
  assumes "k < length ind"
  shows "fst (iloc df ind ! k) = ind ! k"
    and "length (sparse_ids (criteo_arrays (iloc df ind)) ! k) = length (sparse_cols df)"
    and "j < length (sparse_cols df) \<Longrightarrow>
           sparse_ids (criteo_arrays (iloc df ind)) ! k ! j =
             astype_int32 (int (sparse_cols df ! j ! (ind ! k)))"
    and "length (dense_values (criteo_arrays (iloc df ind)) ! k) = length (dense_cols df)"
    and "j < length (dense_cols df) \<Longrightarrow>
           dense_values (criteo_arrays (iloc df ind)) ! k ! j = dense_cols df ! j ! (ind ! k)"
  using assms
  by (simp_all add: sparse_ids_arrays dense_values_arrays iloc_def row_at_def)

lemma sparse_column_rank:
  assumes "preprocess lines = Inr df" and "j < 26"
  shows "sparse_cols df ! j =
           map (\<lambda>v. card {c \<in> set (imputed_sparse lines j). pyval_less c v})
             (imputed_sparse lines j)"
  by (rule label_encode_rank [OF preprocess_Inr(6) [OF assms]])

lemma sparse_entry_rank:
  assumes "preprocess lines = Inr df" and "j < 26" and "i < length lines"
  shows "sparse_cols df ! j ! i =
           card {c \<in> set (imputed_sparse lines j). pyval_less c (imputed_sparse lines j ! i)}"
  using assms(3) by (simp add: sparse_column_rank [OF assms(1,2)] length_imputed_sparse)


subsection \<open>Some float64 values\<close>

text \<open>
  The float64 results that the examples need, each computed in its binade:
  \<^verbatim>\<open>0.2 * 3\<close> is 0.6000000000000001, \<^verbatim>\<open>1 / 117\<close> times 58 minus \<^verbatim>\<open>1 / 117\<close> times -59 is
  1.0000000000000002, and \<^verbatim>\<open>0.28 * 25\<close> is 7.000000000000001, whose ceiling is 8.
\<close>

lemma round_half_even_eval:
  "round_half_even x =
     (if x - of_int \<lfloor>x\<rfloor> < 1 / 2 then \<lfloor>x\<rfloor>
      else if 1 / 2 < x - of_int \<lfloor>x\<rfloor> then \<lfloor>x\<rfloor> + 1
      else if even \<lfloor>x\<rfloor> then \<lfloor>x\<rfloor> else \<lfloor>x\<rfloor> + 1)"
  by (simp add: round_half_even_def Let_def)

lemma float64_one_fifth: "float64 0.2 = 3602879701896397 / 18014398509481984"
  using float64_in_binade [of "-3" "0.2"] by (simp add: round_half_even_eval)

lemma float64_three_fifths:
  "float64 (3602879701896397 / 18014398509481984 * 3) = 1351079888211149 / 2251799813685248"
  using float64_in_binade [of "-1" "3602879701896397 / 18014398509481984 * 3"]
  by (simp add: round_half_even_eval)





lemma float64_seven:
  "float64 (float64 0.28 * 25) = 7 + 1 / 2 ^ 50"
proof -
  have a: "float64 0.28 = 1261007895663739 / 4503599627370496"
    using float64_in_binade [of "-2" "0.28"] by (simp add: round_half_even_eval)
  show ?thesis
    unfolding a
    using float64_in_binade [of 2 "1261007895663739 / 4503599627370496 * 25"]
    by (simp add: round_half_even_eval)
qed

subsection \<open>The example files\<close>

lemma criteo_frames_defined:
  assumes "preprocess (read_lines file read_part sample_num) = Inr df"
    and "train_test_split g test_size (length (read_lines file read_part sample_num)) =
           Inr (ind_train, ind_test)"
  shows "criteo_frames file embed_dim read_part sample_num test_size g =
           Inr (criteo_feature_columns df embed_dim, iloc df ind_train, iloc df ind_test)"
  using assms by (simp add: criteo_frames_def Let_def)

text \<open>A table without numbers in its sparse columns is encoded.\<close>

lemma label_encode_strings:
  assumes "\<forall>l \<in> set lines. \<forall>c \<in> set (sparse_cells l). \<forall>x. c \<noteq> Some (Num x)"
  shows "\<exists>ids. label_encode (imputed_sparse lines j) = Inr ids"
proof -
  have "is_Str (case cell (sparse_cells l) j of None \<Rightarrow> Str ''-1'' | Some v \<Rightarrow> v)"
    if "l \<in> set lines" for l
  proof (cases "cell (sparse_cells l) j")
    case None
    then show ?thesis by simp
  next
    case (Some v)
    then have "Some v \<in> set (sparse_cells l)"
      by (auto simp: cell_def split: if_splits dest: nth_mem)
    then have "\<forall>x. v \<noteq> Num x"
      using assms that by auto
    then show ?thesis
      using Some by (cases v) simp_all
  qed
  then have "list_all is_Str (imputed_sparse lines j)"
    by (simp add: imputed_sparse_def fillna_def sparse_column_def list_all_iff)
  then show ?thesis
    by (simp add: label_encode_def)
qed

lemma split_one_in_three:
  "train_test_split identity_rng 0.2 3 = Inr ([1, 2], [0])"
proof -
  have "float64 (real 3) = 3"
    using float64_of_int [of 3] by simp
  then have "nat \<lceil>float64 (float64 0.2 * float64 (real 3))\<rceil> = 1"
    by (simp only: float64_one_fifth float64_three_fifths) simp
  moreover have "identity_rng 3 = [0, 1, 2]"
    by (simp add: identity_rng_def upt_rec)
  moreover have "\<not> (float64 0.2 \<le> 0 \<or> float64 0.2 \<ge> 1)"
    by (simp only: float64_one_fifth) simp
  ultimately show ?thesis
    unfolding train_test_split_def Let_def by (simp only: if_False) simp
qed

lemma example_lines: "read_lines example_file False 0 = example_file None"
  by (simp add: read_lines_def)

lemma length_example: "length (example_file None) = 3"
  by (simp add: example_file_def)

lemma example_frames:
  obtains fc train test where
    "criteo_frames example_file 8 False 0 0.2 identity_rng = Inr (fc, train, test)"
    and "map fst train = [1, 2]" and "map fst test = [0]"
proof -
  have "example_file None \<noteq> []"
    by (simp add: example_file_def)
  moreover have "\<exists>ids. label_encode (imputed_sparse (example_file None) j) = Inr ids" for j
    by (rule label_encode_strings) (simp add: example_file_def)
  ultimately obtain df where "preprocess (example_file None) = Inr df"
    using preprocess_defined by blast
  then have "criteo_frames example_file 8 False 0 0.2 identity_rng =
      Inr (criteo_feature_columns df 8, iloc df [1, 2], iloc df [0])"
    by (intro criteo_frames_defined) (simp_all only: example_lines length_example split_one_in_three)
  then show ?thesis
    by (rule that) (simp_all only: map_fst_iloc)
qed









subsection \<open>Entries of the output arrays\<close>

lemma astype_int32_small:
  assumes "k < 2 ^ 31"
  shows "astype_int32 (int k) = int k"
proof -
  have "- (2 ^ 31) \<le> int k"
    by (rule order_trans [of _ 0]) simp_all
  moreover have "int k < 2 ^ 31"
    using assms by (metis of_nat_less_iff of_nat_numeral of_nat_power)
  ultimately have "signed_take_bit 31 (int k) = int k"
    by (rule signed_take_bit_int_eq_self)
  moreover have "sint (word_of_int (int k) :: 32 word) = signed_take_bit 31 (int k)"
    unfolding sint_sbintrunc' by simp
  ultimately show ?thesis
    unfolding astype_int32_def by (simp only:)
qed

text \<open>
  What the builder's frames are made of, when it returns: the preprocessed table and
  the two index lists of the split, which hold positions of the table.
\<close>

lemma criteo_frames_parts:
  assumes "criteo_frames file embed_dim read_part sample_num test_size g = Inr (fc, train, test)"
    and "lines = read_lines file read_part sample_num"
    and "permutation_source g"
  obtains df where "preprocess lines = Inr df"
    and "train = iloc df (map fst train)" and "test = iloc df (map fst test)"
    and "set (map fst train) \<subseteq> {..<length lines}"
    and "set (map fst test) \<subseteq> {..<length lines}"
    and "mset (map fst train) + mset (map fst test) = mset [0..<length lines]"
    and "set (map fst train) \<inter> set (map fst test) = {}"
proof -
  obtain df ind_train ind_test where
    p: "preprocess (read_lines file read_part sample_num) = Inr df"
    and s: "train_test_split g test_size (length (read_lines file read_part sample_num)) =
           Inr (ind_train, ind_test)"
    and tr: "train = iloc df ind_train" and te: "test = iloc df ind_test"
    using assms(1) by (rule criteo_frames_Inr)
  have l: "ind_train = map fst train" "ind_test = map fst test"
    by (simp_all add: tr te map_fst_iloc)
  note b = split_indices_bounds [OF assms(3) s]
  show ?thesis
  proof (rule that)
    show "preprocess lines = Inr df"
      using p by (simp only: assms(2))
    show "train = iloc df (map fst train)" and "test = iloc df (map fst test)"
      by (simp_all add: tr te map_fst_iloc)
    show "set (map fst train) \<subseteq> {..<length lines}"
      using b(1) by (simp only: l(1) [symmetric] assms(2))
    show "set (map fst test) \<subseteq> {..<length lines}"
      using b(2) by (simp only: l(2) [symmetric] assms(2))
    show "mset (map fst train) + mset (map fst test) = mset [0..<length lines]"
      using split_indices_partition [OF assms(3) s] by (simp only: l [symmetric] assms(2))
    show "set (map fst train) \<inter> set (map fst test) = {}"
      using b(3) by (simp only: l [symmetric])
  qed
qed

lemma sparse_output_entry:
  assumes "preprocess lines = Inr df" and "set ind \<subseteq> {..<length lines}"
    and "k < length ind" and "j < 26"
  shows "length (sparse_ids (criteo_arrays (iloc df ind)) ! k) = 26"
    and "sparse_ids (criteo_arrays (iloc df ind)) ! k ! j =
           astype_int32 (int (card {c \<in> set (imputed_sparse lines j).
             pyval_less c (imputed_sparse lines j ! (ind ! k))}))"
    and "card {c \<in> set (imputed_sparse lines j). pyval_less c (imputed_sparse lines j ! (ind ! k))}
           < card (set (imputed_sparse lines j))"
    and "ind ! k < length lines"
proof -
  have i: "ind ! k < length lines"
    using assms(2,3) by (metis lessThan_iff nth_mem subsetD)
  then show "ind ! k < length lines" .
  have len: "length (sparse_cols df) = 26"
    by (rule preprocess_Inr(5) [OF assms(1)])
  show "length (sparse_ids (criteo_arrays (iloc df ind)) ! k) = 26"
    by (simp only: frame_entries(2) [OF assms(3)] len)
  have j: "j < length (sparse_cols df)"
    using assms(4) by (simp only: len)
  show "sparse_ids (criteo_arrays (iloc df ind)) ! k ! j =
           astype_int32 (int (card {c \<in> set (imputed_sparse lines j).
             pyval_less c (imputed_sparse lines j ! (ind ! k))}))"
    by (simp only: frame_entries(3) [OF assms(3) j] sparse_entry_rank [OF assms(1,4) i])
  have "imputed_sparse lines j ! (ind ! k) \<in> set (imputed_sparse lines j)"
    using i by (simp add: length_imputed_sparse)
  then show "card {c \<in> set (imputed_sparse lines j).
      pyval_less c (imputed_sparse lines j ! (ind ! k))} < card (set (imputed_sparse lines j))"
    by (rule rank_less_card)
qed


lemma rows_of_arrays:
  "length (sparse_ids (criteo_arrays fr)) = length fr"
  "length (dense_values (criteo_arrays fr)) = length fr"
  by (simp_all add: sparse_ids_arrays dense_values_arrays)




lemma example_encoded:
  "label_encode (imputed_sparse (read_lines example_file False 0) 0) = Inr [2, 0, 1]"
proof -
  have "imputed_sparse (read_lines example_file False 0) 0 = [Str ''b'', Str ''-1'', Str ''a'']"
    by (simp add: example_lines imputed_sparse_def sparse_column_def fillna_def cell_def
        example_file_def)
  moreover have "fit_transform [''b'', ''-1'', ''a''] = [2, 0, 1]"
    by code_simp
  ultimately show ?thesis
    by (simp add: label_encode_def)
qed






subsection \<open>The claims about the CTR builder\<close>

text \<open>
  Each claim is stated for a call that returns: the hypothesis is that lines 38 to 68
  give the feature columns and the frames \<open>train\<close> and \<open>test\<close>, and the first conclusion is
  that the builder then returns their arrays. \<open>lines\<close> is the table that was read.
\<close>

text \<open>
  Claim C1. For every sparse column \<^verbatim>\<open>C1\<close> to \<^verbatim>\<open>C26\<close>, every value of the sparse-id
  arrays of train and test is an integer between 0 and \<open>d - 1\<close>, where \<open>d\<close> is the number
  of distinct values of that column after imputation, and it is the id that the encoder
  of that column alone gives the row's value. The table has fewer than \<open>2 ^ 31\<close> rows, so
  that \<^verbatim>\<open>astype('int32')\<close> keeps every id.
\<close>

theorem sparse_ids_in_range:
  assumes "criteo_frames file embed_dim read_part sample_num test_size g = Inr (fc, train, test)"
    and "lines = read_lines file read_part sample_num"
    and "permutation_source g"
    and "length lines < 2 ^ 31"
  shows "create_criteo_dataset file embed_dim read_part sample_num test_size g =
           Inr (fc, criteo_arrays train, criteo_arrays test) \<and>
         (\<forall>fr \<in> {train, test}. \<forall>k<length fr.
            length (sparse_ids (criteo_arrays fr) ! k) = 26 \<and>
            (\<forall>j<26.
               0 \<le> sparse_ids (criteo_arrays fr) ! k ! j \<and>
               sparse_ids (criteo_arrays fr) ! k ! j
                 \<le> int (card (set (imputed_sparse lines j))) - 1 \<and>
               (\<exists>ids. label_encode (imputed_sparse lines j) = Inr ids \<and>
                  sparse_ids (criteo_arrays fr) ! k ! j = int (ids ! fst (fr ! k)))))"
proof -
  obtain df where p: "preprocess lines = Inr df"
    and tr: "train = iloc df (map fst train)" and te: "test = iloc df (map fst test)"
    and sub: "set (map fst train) \<subseteq> {..<length lines}" "set (map fst test) \<subseteq> {..<length lines}"
    using assms(1-3) by (rule criteo_frames_parts)
  have entry: "length (sparse_ids (criteo_arrays fr) ! k) = 26 \<and>
            (\<forall>j<26.
               0 \<le> sparse_ids (criteo_arrays fr) ! k ! j \<and>
               sparse_ids (criteo_arrays fr) ! k ! j
                 \<le> int (card (set (imputed_sparse lines j))) - 1 \<and>
               (\<exists>ids. label_encode (imputed_sparse lines j) = Inr ids \<and>
                  sparse_ids (criteo_arrays fr) ! k ! j = int (ids ! fst (fr ! k))))"
    if fr: "fr = iloc df (map fst fr)" and s: "set (map fst fr) \<subseteq> {..<length lines}"
      and k: "k < length fr" for fr k
  proof -
    let ?ind = "map fst fr"
    have k': "k < length ?ind"
      using k by simp
    have ik: "?ind ! k = fst (fr ! k)"
      using k by simp
    have "0 \<le> sparse_ids (criteo_arrays fr) ! k ! j \<and>
               sparse_ids (criteo_arrays fr) ! k ! j
                 \<le> int (card (set (imputed_sparse lines j))) - 1 \<and>
               (\<exists>ids. label_encode (imputed_sparse lines j) = Inr ids \<and>
                  sparse_ids (criteo_arrays fr) ! k ! j = int (ids ! fst (fr ! k)))"
      if j: "j < 26" for j
    proof -
      let ?col = "imputed_sparse lines j"
      let ?r = "card {c \<in> set ?col. pyval_less c (?col ! (?ind ! k))}"
      note e = sparse_output_entry [OF p s k' j]
      have "card (set ?col) \<le> length ?col"
        by (rule card_length)
      then have "?r < 2 ^ 31"
        using e(3) assms(4) by (simp add: length_imputed_sparse)
      then have val: "sparse_ids (criteo_arrays (iloc df ?ind)) ! k ! j = int ?r"
        by (simp only: e(2) astype_int32_small)
      have enc: "label_encode ?col = Inr (sparse_cols df ! j)"
        by (rule preprocess_Inr(6) [OF p j])
      have "sparse_cols df ! j ! (?ind ! k) = ?r"
        by (rule sparse_entry_rank [OF p j e(4)])
      then have "sparse_ids (criteo_arrays (iloc df ?ind)) ! k ! j =
          int (sparse_cols df ! j ! fst (fr ! k))"
        by (simp only: val ik)
      moreover have "0 \<le> int ?r" and "int ?r \<le> int (card (set ?col)) - 1"
        using e(3) by simp_all
      ultimately show ?thesis
        using enc val unfolding fr [symmetric] by auto
    qed
    moreover have "length (sparse_ids (criteo_arrays fr) ! k) = 26"
      using sparse_output_entry(1) [OF p s k', of 0] unfolding fr [symmetric] by simp
    ultimately show ?thesis
      by blast
  qed
  have "\<forall>fr \<in> {train, test}. \<forall>k<length fr.
            length (sparse_ids (criteo_arrays fr) ! k) = 26 \<and>
            (\<forall>j<26.
               0 \<le> sparse_ids (criteo_arrays fr) ! k ! j \<and>
               sparse_ids (criteo_arrays fr) ! k ! j
                 \<le> int (card (set (imputed_sparse lines j))) - 1 \<and>
               (\<exists>ids. label_encode (imputed_sparse lines j) = Inr ids \<and>
                  sparse_ids (criteo_arrays fr) ! k ! j = int (ids ! fst (fr ! k))))"
    using entry tr te sub by blast
  then show ?thesis
    using create_of_frames [OF assms(1)] by (rule conjI [rotated])
qed

theorem sparse_ids_in_range_witness:
  "permutation_source identity_rng \<and>
   length (read_lines example_file False 0) < 2 ^ 31 \<and>
   (\<exists>fc train test.
      criteo_frames example_file 8 False 0 0.2 identity_rng = Inr (fc, train, test) \<and>
      create_criteo_dataset example_file 8 False 0 0.2 identity_rng =
        Inr (fc, criteo_arrays train, criteo_arrays test) \<and>
      length train = 2 \<and>
      length (sparse_ids (criteo_arrays train) ! 0) = 26 \<and>
      0 \<le> sparse_ids (criteo_arrays train) ! 0 ! 0 \<and>
      sparse_ids (criteo_arrays train) ! 0 ! 0
        \<le> int (card (set (imputed_sparse (read_lines example_file False 0) 0))) - 1)"
proof -
  obtain fc train test where
    f: "criteo_frames example_file 8 False 0 0.2 identity_rng = Inr (fc, train, test)"
    and l: "map fst train = [1, 2]"
    by (rule example_frames)
  have small: "length (read_lines example_file False 0) < 2 ^ 31"
    by (simp add: example_lines length_example)
  have len: "length train = 2"
    using length_map [of fst train] by (simp add: l)
  note t = sparse_ids_in_range [OF f refl permutation_source_identity small]
  have c: "create_criteo_dataset example_file 8 False 0 0.2 identity_rng =
        Inr (fc, criteo_arrays train, criteo_arrays test)"
    by (rule t [THEN conjunct1])
  have tr: "train \<in> {train, test}"
    by simp
  have k: "0 < length train"
    by (simp add: len)
  note r = t [THEN conjunct2, rule_format, OF tr k]
  have j: "(0::nat) < 26"
    by simp
  note e = r [THEN conjunct2, rule_format, OF j]
  note facts = permutation_source_identity small f c len r [THEN conjunct1]
    e [THEN conjunct1] e [THEN conjunct2, THEN conjunct1]
  show ?thesis
    by (intro conjI exI [of _ fc] exI [of _ train] exI [of _ test]) (rule facts)+
qed




text \<open>
  Claim C6. The number of train rows plus the number of test rows is the number of rows
  read, and the index labels of train and test together are the positions of the rows
  read, each once: no row is in both partitions.
\<close>

theorem criteo_split_partition:
  assumes "criteo_frames file embed_dim read_part sample_num test_size g = Inr (fc, train, test)"
    and "lines = read_lines file read_part sample_num"
    and "permutation_source g"
  shows "create_criteo_dataset file embed_dim read_part sample_num test_size g =
           Inr (fc, criteo_arrays train, criteo_arrays test) \<and>
         length (dense_values (criteo_arrays train)) + length (dense_values (criteo_arrays test)) =
           length lines \<and>
         mset (map fst train) + mset (map fst test) = mset [0..<length lines] \<and>
         set (map fst train) \<inter> set (map fst test) = {}"
proof -
  obtain df where
    m: "mset (map fst train) + mset (map fst test) = mset [0..<length lines]"
    and d: "set (map fst train) \<inter> set (map fst test) = {}"
    using assms by (rule criteo_frames_parts)
  have "size (mset (map fst train) + mset (map fst test)) = size (mset [0..<length lines])"
    by (simp only: m)
  then have "length (dense_values (criteo_arrays train)) +
      length (dense_values (criteo_arrays test)) = length lines"
    by (simp add: rows_of_arrays)
  then show ?thesis
    using create_of_frames [OF assms(1)] m d by (intro conjI)
qed

theorem criteo_split_partition_witness:
  "permutation_source identity_rng \<and>
   (\<exists>fc train test.
      criteo_frames example_file 8 False 0 0.2 identity_rng = Inr (fc, train, test) \<and>
      create_criteo_dataset example_file 8 False 0 0.2 identity_rng =
        Inr (fc, criteo_arrays train, criteo_arrays test) \<and>
      length (dense_values (criteo_arrays train)) + length (dense_values (criteo_arrays test)) =
        length (read_lines example_file False 0) \<and>
      length (read_lines example_file False 0) = 3)"
proof -
  obtain fc train test where
    f: "criteo_frames example_file 8 False 0 0.2 identity_rng = Inr (fc, train, test)"
    by (rule example_frames)
  note t = criteo_split_partition [OF f refl permutation_source_identity]
  have n: "length (read_lines example_file False 0) = 3"
    by (simp add: example_lines length_example)
  note facts = permutation_source_identity f t [THEN conjunct1]
    t [THEN conjunct2, THEN conjunct1] n
  show ?thesis
    by (intro conjI exI [of _ fc] exI [of _ train] exI [of _ test]) (rule facts)+
qed



text \<open>
  Claim C9. Every sparse column of the encoded table holds, for each of its values, the
  rank of the value among the column's distinct values after imputation, in ascending
  order from 0. Any column with the same set of values is encoded by the same function
  of the value, whatever the order and the number of its rows.
\<close>

theorem label_encoding_is_rank:
  assumes "criteo_frames file embed_dim read_part sample_num test_size g = Inr (fc, train, test)"
    and "lines = read_lines file read_part sample_num"
    and "permutation_source g"
  shows "\<exists>df. preprocess lines = Inr df \<and>
           train = iloc df (map fst train) \<and> test = iloc df (map fst test) \<and>
           (\<forall>j<26. sparse_cols df ! j =
              map (\<lambda>v. card {c \<in> set (imputed_sparse lines j). pyval_less c v})
                (imputed_sparse lines j)) \<and>
           (\<forall>j<26. \<forall>col ids.
              set col = set (imputed_sparse lines j) \<and> label_encode col = Inr ids \<longrightarrow>
              ids = map (\<lambda>v. card {c \<in> set (imputed_sparse lines j). pyval_less c v}) col)"
proof -
  obtain df where p: "preprocess lines = Inr df"
    and tr: "train = iloc df (map fst train)" and te: "test = iloc df (map fst test)"
    using assms by (rule criteo_frames_parts)
  have a: "\<forall>j<26. sparse_cols df ! j =
              map (\<lambda>v. card {c \<in> set (imputed_sparse lines j). pyval_less c v})
                (imputed_sparse lines j)"
    using sparse_column_rank [OF p] by blast
  have b: "\<forall>j<26. \<forall>col ids.
              set col = set (imputed_sparse lines j) \<and> label_encode col = Inr ids \<longrightarrow>
              ids = map (\<lambda>v. card {c \<in> set (imputed_sparse lines j). pyval_less c v}) col"
    using label_encode_rank by metis
  show ?thesis
    using p tr te a b by (intro exI [of _ df] conjI)
qed

theorem label_encoding_is_rank_witness:
  "permutation_source identity_rng \<and>
   (\<exists>fc train test df.
      criteo_frames example_file 8 False 0 0.2 identity_rng = Inr (fc, train, test) \<and>
      preprocess (read_lines example_file False 0) = Inr df \<and>
      sparse_cols df ! 0 = [2, 0, 1] \<and>
      [2, 0, 1] =
        map (\<lambda>v. card {c \<in> set (imputed_sparse (read_lines example_file False 0) 0).
          pyval_less c v}) (imputed_sparse (read_lines example_file False 0) 0))"
proof -
  obtain fc train test where
    f: "criteo_frames example_file 8 False 0 0.2 identity_rng = Inr (fc, train, test)"
    by (rule example_frames)
  from label_encoding_is_rank [OF f refl permutation_source_identity]
  obtain df where p: "preprocess (read_lines example_file False 0) = Inr df"
    and r: "\<forall>j<26. sparse_cols df ! j =
              map (\<lambda>v. card {c \<in> set (imputed_sparse (read_lines example_file False 0) j).
                pyval_less c v}) (imputed_sparse (read_lines example_file False 0) j)"
    by (elim exE conjE)
  have j: "(0::nat) < 26"
    by simp
  have "Inr (sparse_cols df ! 0) = (Inr [2, 0, 1] :: error + nat list)"
    using preprocess_Inr(6) [OF p j] by (simp only: example_encoded)
  then have e: "sparse_cols df ! 0 = [2, 0, 1]"
    by simp
  have q: "[2, 0, 1] =
        map (\<lambda>v. card {c \<in> set (imputed_sparse (read_lines example_file False 0) 0).
          pyval_less c v}) (imputed_sparse (read_lines example_file False 0) 0)"
    using r [rule_format, OF j] by (simp only: e)
  note facts = permutation_source_identity f p e q
  show ?thesis
    by (intro conjI exI [of _ fc] exI [of _ train] exI [of _ test] exI [of _ df]) (rule facts)+
qed

end
